theory Spec2Isabelle
  imports Complex_Main
begin

section \<open>JavaScript values\<close>

text \<open>
  The workflow of \<^verbatim>\<open>src/index.ts\<close> handles loosely typed data: dataset entries arrive as
  \<^verbatim>\<open>any\<close>, and the batch output is whatever \<^verbatim>\<open>JSON.parse\<close> returns. The TypeScript
  annotations are erased at run time, so the fields are modelled as JavaScript values.

  A number is a double: \<open>NaN\<close>, an infinity, or a finite value, which is a rational
  (\<open>-0\<close> and \<open>+0\<close> are identified; they are equal under \<^verbatim>\<open>===\<close> and both falsy).
  An object is an association list read with \<open>map_of\<close>.
\<close>

datatype jsnumber = NaN | Infinity | NegInfinity | Finite rat

datatype jsval =
    JUndefined
  | JNull
  | JBool bool
  | JNum jsnumber
  | JStr string
  | JArr "jsval list"
  | JObj "(string \<times> jsval) list"

datatype js_error =
    Error string
  | SyntaxError
  | TypeError
  | NonRetryableError string

text \<open>Truthiness, as \<^verbatim>\<open>||\<close> and \<^verbatim>\<open>!\<close> test it.\<close>

fun truthy :: "jsval \<Rightarrow> bool" where
  "truthy JUndefined = False"
| "truthy JNull = False"
| "truthy (JBool b) = b"
| "truthy (JNum n) = (n \<noteq> NaN \<and> n \<noteq> Finite 0)"
| "truthy (JStr s) = (s \<noteq> [])"
| "truthy (JArr xs) = True"
| "truthy (JObj kvs) = True"

text \<open>\<^verbatim>\<open>a || b\<close>\<close>

definition js_or :: "jsval \<Rightarrow> jsval \<Rightarrow> jsval" where
  "js_or a b = (if truthy a then a else b)"

text \<open>
  \<^verbatim>\<open>a === b\<close>. Two objects or arrays are equal only when they are the same reference;
  the values compared in this program always come from two separately decoded sources
  (the dataset and the batch output), so an object is never strictly equal to anything.
\<close>

fun strict_eq :: "jsval \<Rightarrow> jsval \<Rightarrow> bool" where
  "strict_eq JUndefined JUndefined = True"
| "strict_eq JNull JNull = True"
| "strict_eq (JBool a) (JBool b) = (a = b)"
| "strict_eq (JNum a) (JNum b) = (a \<noteq> NaN \<and> a = b)"
| "strict_eq (JStr a) (JStr b) = (a = b)"
| "strict_eq _ _ = False"

text \<open>
  Reading a named property \<^verbatim>\<open>v.p\<close>. On \<^verbatim>\<open>undefined\<close> and \<^verbatim>\<open>null\<close> it
  throws a TypeError. The names read in this program (\<^verbatim>\<open>text\<close>, \<^verbatim>\<open>category\<close>,
  \<^verbatim>\<open>response\<close>, \<^verbatim>\<open>body\<close>, \<^verbatim>\<open>choices\<close>, \<^verbatim>\<open>message\<close>, \<^verbatim>\<open>content\<close>,
  \<^verbatim>\<open>custom_id\<close>, \<^verbatim>\<open>confidence\<close>, \<^verbatim>\<open>reasoning\<close>) are no properties of a
  string, number, boolean or array, which therefore give \<^verbatim>\<open>undefined\<close>.
\<close>

fun get_prop :: "jsval \<Rightarrow> string \<Rightarrow> js_error + jsval" where
  "get_prop JUndefined p = Inl TypeError"
| "get_prop JNull p = Inl TypeError"
| "get_prop (JObj kvs) p = Inr (case map_of kvs p of None \<Rightarrow> JUndefined | Some v \<Rightarrow> v)"
| "get_prop v p = Inr JUndefined"

text \<open>Optional chaining \<^verbatim>\<open>v?.p\<close>: \<^verbatim>\<open>undefined\<close> instead of the TypeError.\<close>

definition get_prop_opt :: "jsval \<Rightarrow> string \<Rightarrow> jsval" where
  "get_prop_opt v p = (case get_prop v p of Inl e \<Rightarrow> JUndefined | Inr x \<Rightarrow> x)"

text \<open>\<^verbatim>\<open>v[0]\<close>\<close>

fun get_index0 :: "jsval \<Rightarrow> js_error + jsval" where
  "get_index0 JUndefined = Inl TypeError"
| "get_index0 JNull = Inl TypeError"
| "get_index0 (JArr xs) = Inr (case xs of [] \<Rightarrow> JUndefined | x # _ \<Rightarrow> x)"
| "get_index0 (JObj kvs) = Inr (case map_of kvs ''0'' of None \<Rightarrow> JUndefined | Some v \<Rightarrow> v)"
| "get_index0 (JStr s) = Inr (case s of [] \<Rightarrow> JUndefined | c # _ \<Rightarrow> JStr [c])"
| "get_index0 v = Inr JUndefined"

section \<open>Data model\<close>

record DatasetItem =
  id_di :: jsval
  text_di :: jsval
  expectedCategory :: jsval
  metadata_di :: jsval

record CofactsCategory =
  id_cat :: string
  title :: string

record ClassificationResult =
  id_cr :: jsval
  category :: jsval
  confidence :: jsval
  reasoning :: jsval

text \<open>An entry of \<^verbatim>\<open>dataset.items\<close> as the dataset source returns it.\<close>

record raw_item =
  raw_id :: jsval
  raw_input :: jsval
  raw_expectedOutput :: jsval
  raw_metadata :: jsval

section \<open>Step load-langfuse-dataset: normalization\<close>

text \<open>
  \<^verbatim>\<open>
  dataset.items.map((item: any): DatasetItem => ({
    id: item.id,
    text: item.input?.text || item.input,
    expectedCategory: item.expectedOutput?.category || item.expectedOutput,
    metadata: item.metadata,
  }))
  \<close>
\<close>

definition normalize_item :: "raw_item \<Rightarrow> DatasetItem" where
  "normalize_item item =
     \<lparr> id_di = raw_id item,
       text_di = js_or (get_prop_opt (raw_input item) ''text'') (raw_input item),
       expectedCategory =
         js_or (get_prop_opt (raw_expectedOutput item) ''category'') (raw_expectedOutput item),
       metadata_di = raw_metadata item \<rparr>"

definition load_dataset_items :: "raw_item list \<Rightarrow> DatasetItem list" where
  "load_dataset_items items = map normalize_item items"

section \<open>Step poll-batch-completion\<close>

text \<open>What \<^verbatim>\<open>openai.batches.retrieve\<close> returns, as far as the step reads it.
  \<open>request_counts_completed\<close> is \<^verbatim>\<open>batch.request_counts?.completed\<close>.\<close>

record batch =
  id_batch :: string
  status :: string
  output_file_id :: "string option"
  request_counts_completed :: "nat option"

record token_usage =
  prompt_tokens :: nat
  completion_tokens :: nat
  total_tokens :: nat

record batch_result =
  batchId :: string
  results :: "ClassificationResult list"
  usage :: token_usage

text \<open>
  \<^verbatim>\<open>resultsText.trim().split('\n')\<close>. A character of the model is a code unit below
  \<open>0x100\<close>. \<^verbatim>\<open>trim\<close> strips the white space and line terminators of JavaScript
  from both ends; those below \<open>0x100\<close> are tab, line feed, vertical tab, form feed,
  carriage return, space and the no-break space U+00A0 (the others, such as U+FEFF and
  U+2028, lie beyond the character type). Splitting the empty string gives one empty
  line.
\<close>

definition js_whitespace :: "char \<Rightarrow> bool" where
  "js_whitespace c =
     (c = CHR 0x09 \<or> c = CHR 0x0A \<or> c = CHR 0x0B \<or> c = CHR 0x0C \<or> c = CHR 0x0D \<or>
      c = CHR '' '' \<or> c = CHR 0xA0)"

definition trim :: "string \<Rightarrow> string" where
  "trim s = rev (dropWhile js_whitespace (rev (dropWhile js_whitespace s)))"

fun split_newline :: "string \<Rightarrow> string list" where
  "split_newline [] = [[]]"
| "split_newline (c # cs) =
     (if c = CHR 0x0A then [] # split_newline cs
      else (case split_newline cs of
              [] \<Rightarrow> [[c]]
            | l # ls \<Rightarrow> (c # l) # ls))"

text \<open>Sequencing of operations that may throw.\<close>

definition and_then :: "'e + 'a \<Rightarrow> ('a \<Rightarrow> 'e + 'b) \<Rightarrow> 'e + 'b" where
  "and_then r f = (case r of Inl e \<Rightarrow> Inl e | Inr v \<Rightarrow> f v)"

text \<open>\<^verbatim>\<open>response.response.body.choices[0].message.content\<close>\<close>

definition message_content :: "jsval \<Rightarrow> js_error + jsval" where
  "message_content response =
     and_then (get_prop response ''response'') (\<lambda>r.
     and_then (get_prop r ''body'') (\<lambda>b.
     and_then (get_prop b ''choices'') (\<lambda>cs.
     and_then (get_index0 cs) (\<lambda>c.
     and_then (get_prop c ''message'') (\<lambda>m.
     get_prop m ''content'')))))"

text \<open>
  The body of the loop over the lines. \<open>JSON_parse\<close> is the built-in \<^verbatim>\<open>JSON.parse\<close>,
  a parameter of the model: \<open>None\<close> is its SyntaxError.
  \<^verbatim>\<open>
  const response = JSON.parse(line);
  const content = response.response.body.choices[0].message.content;
  const classification = JSON.parse(content);
  results.push({ id: response.custom_id, category: classification.category,
                 confidence: classification.confidence, reasoning: classification.reasoning });
  \<close>
\<close>

definition decode_line :: "(jsval \<Rightarrow> jsval option) \<Rightarrow> string \<Rightarrow> js_error + ClassificationResult" where
  "decode_line JSON_parse line =
     (case JSON_parse (JStr line) of
        None \<Rightarrow> Inl SyntaxError
      | Some response \<Rightarrow>
          and_then (message_content response) (\<lambda>content.
            (case JSON_parse content of
               None \<Rightarrow> Inl SyntaxError
             | Some classification \<Rightarrow>
                 and_then (get_prop response ''custom_id'') (\<lambda>i.
                 and_then (get_prop classification ''category'') (\<lambda>c.
                 and_then (get_prop classification ''confidence'') (\<lambda>f.
                 and_then (get_prop classification ''reasoning'') (\<lambda>g.
                 Inr \<lparr> id_cr = i, category = c, confidence = f, reasoning = g \<rparr>)))))))"

fun decode_lines ::
  "(jsval \<Rightarrow> jsval option) \<Rightarrow> string list \<Rightarrow> ClassificationResult list
     \<Rightarrow> js_error + ClassificationResult list" where
  "decode_lines JSON_parse [] acc = Inr acc"
| "decode_lines JSON_parse (line # lines) acc =
     (case decode_line JSON_parse line of
        Inl e \<Rightarrow> Inl e
      | Inr r \<Rightarrow> decode_lines JSON_parse lines (acc @ [r]))"

text \<open>\<^verbatim>\<open>batch.request_counts?.completed || 0\<close>\<close>

definition completed_or_0 :: "batch \<Rightarrow> nat" where
  "completed_or_0 b = (case request_counts_completed b of None \<Rightarrow> 0 | Some n \<Rightarrow> n)"

text \<open>
  One run of the step's callback on the batch that \<^verbatim>\<open>openai.batches.retrieve\<close> returned.
  \<open>files_content\<close> is \<^verbatim>\<open>openai.files.content(id).text()\<close>, a parameter.
\<close>

definition poll_attempt ::
  "(jsval \<Rightarrow> jsval option) \<Rightarrow> (string option \<Rightarrow> js_error + string) \<Rightarrow> batch
     \<Rightarrow> js_error + batch_result" where
  "poll_attempt JSON_parse files_content b =
     (if status b = ''completed'' then
        and_then (files_content (output_file_id b)) (\<lambda>resultsText.
        and_then (decode_lines JSON_parse (split_newline (trim resultsText)) []) (\<lambda>rs.
        Inr \<lparr> batchId = id_batch b, results = rs,
              usage = \<lparr> prompt_tokens = completed_or_0 b,
                        completion_tokens = completed_or_0 b,
                        total_tokens = completed_or_0 b \<rparr> \<rparr>))
      else if status b = ''failed'' \<or> status b = ''expired'' \<or> status b = ''cancelled'' then
        Inl (Error (''Batch processing failed with status: '' @ status b))
      else
        Inl (Error (''Batch still processing, status: '' @ status b)))"

subsection \<open>The stage executor\<close>

text \<open>
  What the executor sees of a failed attempt is the thrown value. The platform retries
  every thrown error but its own \<^verbatim>\<open>NonRetryableError\<close>, which the workflow never
  throws.
\<close>

fun retryable :: "js_error \<Rightarrow> bool" where
  "retryable (NonRetryableError m) = False"
| "retryable e = True"

text \<open>
  Modelled from the spec: \<^verbatim>\<open>step.do(name, {retries: {limit, delay, backoff}}, work)\<close> is
  the platform's stage executor, which is no part of the sources. It runs \<open>work\<close>; "on
  failure, [it] re-invokes the unit according to a retry policy" with a "maximum retry
  count", and a stage "failing after exhausting retries" ends the run with its error.

  \<open>step_do limit work n\<close> starts with attempt number \<open>n\<close>, each attempt making the
  next status query; it returns the outcome and the errors of the attempts it retried, one
  wait of the delay each.
\<close>

fun step_do :: "nat \<Rightarrow> (nat \<Rightarrow> js_error + 'a) \<Rightarrow> nat \<Rightarrow> (js_error + 'a) \<times> js_error list" where
  "step_do 0 work n = (work n, [])"
| "step_do (Suc k) work n =
     (case work n of
        Inr v \<Rightarrow> (Inr v, [])
      | Inl e \<Rightarrow>
          if retryable e
          then (case step_do k work (Suc n) of (out, waits) \<Rightarrow> (out, e # waits))
          else (Inl e, []))"

text \<open>The retry policy of the step: \<^verbatim>\<open>limit: 1440\<close>.\<close>

definition poll_retry_limit :: nat where
  "poll_retry_limit = 1440"

text \<open>
  The provider as the sequence of its answers to the successive status queries; each
  attempt makes one query. \<open>answers bs b\<close> is the sequence that gives the answers
  \<open>bs\<close> in turn and then stays at \<open>b\<close> (a terminal status has no further
  transition).
\<close>

definition answers :: "batch list \<Rightarrow> batch \<Rightarrow> nat \<Rightarrow> batch" where
  "answers bs b n = (if n < length bs then bs ! n else b)"

definition poll_batch_completion ::
  "(jsval \<Rightarrow> jsval option) \<Rightarrow> (string option \<Rightarrow> js_error + string) \<Rightarrow> (nat \<Rightarrow> batch)
     \<Rightarrow> (js_error + batch_result) \<times> js_error list" where
  "poll_batch_completion JSON_parse files_content retrieve =
     step_do poll_retry_limit (\<lambda>n. poll_attempt JSON_parse files_content (retrieve n)) 0"

section \<open>Step evaluate-and-log-results\<close>

subsection \<open>The trace sink\<close>

text \<open>
  The payloads handed to the Langfuse client. \<open>spread_metadata\<close> is the value of
  \<^verbatim>\<open>...originalItem.metadata\<close>, kept beside the four named entries of \<^verbatim>\<open>metadata\<close>
  (the spread comes last in the object literal). \<open>article\<close> is the value interpolated
  into the user message of the generation.
\<close>

record item_trace =
  input_text :: jsval
  input_expectedCategory :: jsval
  output_predictedCategory :: jsval
  output_confidence :: jsval
  output_reasoning :: jsval
  meta_datasetName :: string
  meta_batchId :: string
  meta_correct :: bool
  meta_availableCategories :: "string list"
  spread_metadata :: jsval

record generation =
  article :: jsval
  gen_category :: jsval
  gen_confidence :: jsval
  gen_reasoning :: jsval
  promptTokens :: nat
  completionTokens :: nat
  totalTokens :: nat

record EvaluationRecord =
  id_er :: jsval
  expected :: jsval
  predicted :: jsval
  correct :: bool
  confidence_er :: jsval

record experiment_trace =
  exp_datasetName :: string
  exp_totalItems :: nat
  exp_categories :: "string list"
  exp_accuracy :: jsnumber
  exp_correctPredictions :: nat
  exp_totalPredictions :: nat
  exp_batchId :: string
  exp_usage :: token_usage
  exp_evaluationResults :: "EvaluationRecord list"

text \<open>
  The three calls the step makes on the client: \<^verbatim>\<open>langfuse.trace({name:
  "rumor-classification", ...})\<close>, \<^verbatim>\<open>trace.generation({name: "openai-classification",
  ...})\<close> and \<^verbatim>\<open>langfuse.trace({name: "batch-classification-experiment", ...})\<close>.
\<close>

datatype lf_event =
    RumorClassification item_trace
  | OpenaiClassification generation
  | BatchClassificationExperiment experiment_trace

text \<open>
  Modelled from the spec: the trace sink "accepts arbitrary structured trace records ...
  and a flush operation guaranteeing durability of all previously submitted records
  before it returns". The client holds the submitted records in \<open>queue\<close>;
  \<open>flushAsync\<close> moves them to \<open>flushed\<close>.
\<close>

record langfuse_client =
  queue :: "lf_event list"
  flushed :: "lf_event list"

definition new_Langfuse :: langfuse_client where
  "new_Langfuse = \<lparr> queue = [], flushed = [] \<rparr>"

definition submit :: "lf_event \<Rightarrow> langfuse_client \<Rightarrow> langfuse_client" where
  "submit ev lf = lf\<lparr> queue := queue lf @ [ev] \<rparr>"

definition flushAsync :: "langfuse_client \<Rightarrow> langfuse_client" where
  "flushAsync lf = lf\<lparr> flushed := flushed lf @ queue lf, queue := [] \<rparr>"

subsection \<open>Numbers\<close>

text \<open>
  \<^verbatim>\<open>correctPredictions / totalPredictions\<close> on two counters. JavaScript's division never
  throws: \<open>0 / 0\<close> is \<open>NaN\<close> and \<open>n / 0\<close> is \<open>Infinity\<close>. A finite quotient stands for
  the double nearest to it.
\<close>

definition js_divide :: "nat \<Rightarrow> nat \<Rightarrow> jsnumber" where
  "js_divide n d =
     (if d = 0 then (if n = 0 then NaN else Infinity)
      else Finite (of_nat n / of_nat d))"

text \<open>\<^verbatim>\<open>Math.floor(tokens / batchResult.results.length)\<close>, read inside the loop over the
  results, where the length is positive.\<close>

definition floor_div :: "nat \<Rightarrow> nat \<Rightarrow> nat" where
  "floor_div tokens len = tokens div len"

subsection \<open>The loop over the results\<close>

record eval_state =
  langfuse :: langfuse_client
  evaluationResults :: "EvaluationRecord list"
  correctPredictions :: nat
  totalPredictions :: nat

text \<open>
  One iteration of \<^verbatim>\<open>for (const result of batchResult.results)\<close>:
  \<^verbatim>\<open>
  const originalItem = datasetItems.find((item) => item.id === result.id);
  if (!originalItem) continue;
  const isCorrect = originalItem.expectedCategory === result.category;
  if (isCorrect) correctPredictions++;
  totalPredictions++;
  const trace = langfuse.trace({...});
  trace.generation({...});
  evaluationResults.push({ id: result.id, expected: originalItem.expectedCategory,
    predicted: result.category, correct: isCorrect, confidence: result.confidence });
  \<close>
\<close>

definition process_result ::
  "string \<Rightarrow> CofactsCategory list \<Rightarrow> DatasetItem list \<Rightarrow> batch_result
     \<Rightarrow> eval_state \<Rightarrow> ClassificationResult \<Rightarrow> eval_state" where
  "process_result datasetName categories datasetItems batchResult st result =
     (case find (\<lambda>item. strict_eq (id_di item) (id_cr result)) datasetItems of
        None \<Rightarrow> st
      | Some originalItem \<Rightarrow>
          (let isCorrect = strict_eq (expectedCategory originalItem) (category result);
               trace = RumorClassification
                 \<lparr> input_text = text_di originalItem,
                   input_expectedCategory = expectedCategory originalItem,
                   output_predictedCategory = category result,
                   output_confidence = confidence result,
                   output_reasoning = reasoning result,
                   meta_datasetName = datasetName,
                   meta_batchId = batchId batchResult,
                   meta_correct = isCorrect,
                   meta_availableCategories = map title categories,
                   spread_metadata = metadata_di originalItem \<rparr>;
               gen = OpenaiClassification
                 \<lparr> article = text_di originalItem,
                   gen_category = category result,
                   gen_confidence = confidence result,
                   gen_reasoning = reasoning result,
                   promptTokens =
                     floor_div (prompt_tokens (usage batchResult)) (length (results batchResult)),
                   completionTokens =
                     floor_div (completion_tokens (usage batchResult)) (length (results batchResult)),
                   totalTokens =
                     floor_div (total_tokens (usage batchResult)) (length (results batchResult)) \<rparr>
           in \<lparr> langfuse = submit gen (submit trace (langfuse st)),
                evaluationResults = evaluationResults st @
                  [\<lparr> id_er = id_cr result,
                     expected = expectedCategory originalItem,
                     predicted = category result,
                     correct = isCorrect,
                     confidence_er = confidence result \<rparr>],
                correctPredictions =
                  (if isCorrect then correctPredictions st + 1 else correctPredictions st),
                totalPredictions = totalPredictions st + 1 \<rparr>))"

definition initial_state :: eval_state where
  "initial_state =
     \<lparr> langfuse = new_Langfuse, evaluationResults = [],
       correctPredictions = 0, totalPredictions = 0 \<rparr>"

definition eval_loop ::
  "string \<Rightarrow> CofactsCategory list \<Rightarrow> DatasetItem list \<Rightarrow> batch_result \<Rightarrow> eval_state" where
  "eval_loop datasetName categories datasetItems batchResult =
     foldl (process_result datasetName categories datasetItems batchResult)
       initial_state (results batchResult)"

subsection \<open>The step\<close>

record evaluation =
  accuracy :: jsnumber
  correctPredictions_ev :: nat
  totalPredictions_ev :: nat
  evaluationResults_ev :: "EvaluationRecord list"

text \<open>
  After the loop: the experiment trace, \<^verbatim>\<open>await langfuse.flushAsync()\<close>, and the
  returned object. The step's value is paired with the client's state at the return.
\<close>

definition evaluate_and_log_results ::
  "string \<Rightarrow> CofactsCategory list \<Rightarrow> DatasetItem list \<Rightarrow> batch_result
     \<Rightarrow> evaluation \<times> langfuse_client" where
  "evaluate_and_log_results datasetName categories datasetItems batchResult =
     (let st = eval_loop datasetName categories datasetItems batchResult;
          experiment = BatchClassificationExperiment
            \<lparr> exp_datasetName = datasetName,
              exp_totalItems = length datasetItems,
              exp_categories = map title categories,
              exp_accuracy = js_divide (correctPredictions st) (totalPredictions st),
              exp_correctPredictions = correctPredictions st,
              exp_totalPredictions = totalPredictions st,
              exp_batchId = batchId batchResult,
              exp_usage = usage batchResult,
              exp_evaluationResults = evaluationResults st \<rparr>;
          lf = flushAsync (submit experiment (langfuse st))
      in (\<lparr> accuracy = js_divide (correctPredictions st) (totalPredictions st),
             correctPredictions_ev = correctPredictions st,
             totalPredictions_ev = totalPredictions st,
             evaluationResults_ev = evaluationResults st \<rparr>,
          lf))"

section \<open>The workflow from the poll on\<close>

record run_result =
  datasetName_run :: string
  itemsProcessed :: nat
  batchId_run :: string
  accuracy_run :: jsnumber
  correctPredictions_run :: nat
  totalPredictions_run :: nat
  categoriesUsed :: "string list"
  usage_run :: token_usage

text \<open>
  \<^verbatim>\<open>run\<close> after the loading, upload and trigger steps, whose values \<open>categories\<close>
  and \<open>datasetItems\<close> are given: a step that fails ends the run with its error.
\<close>

definition run ::
  "string \<Rightarrow> CofactsCategory list \<Rightarrow> DatasetItem list \<Rightarrow> (jsval \<Rightarrow> jsval option)
     \<Rightarrow> (string option \<Rightarrow> js_error + string) \<Rightarrow> (nat \<Rightarrow> batch) \<Rightarrow> js_error + run_result" where
  "run datasetName categories datasetItems JSON_parse files_content retrieve =
     (case fst (poll_batch_completion JSON_parse files_content retrieve) of
        Inl e \<Rightarrow> Inl e
      | Inr batchResult \<Rightarrow>
          (let ev = fst (evaluate_and_log_results datasetName categories datasetItems batchResult)
           in Inr \<lparr> datasetName_run = datasetName,
                    itemsProcessed = length datasetItems,
                    batchId_run = batchId batchResult,
                    accuracy_run = accuracy ev,
                    correctPredictions_run = correctPredictions_ev ev,
                    totalPredictions_run = totalPredictions_ev ev,
                    categoriesUsed = map title categories,
                    usage_run = usage batchResult \<rparr>))"

section \<open>Example data\<close>

text \<open>Concrete inputs on which the theorems below are instantiated.\<close>

definition example_categories :: "CofactsCategory list" where
  "example_categories =
     [\<lparr> id_cat = ''c0'', title = ''false'' \<rparr>, \<lparr> id_cat = ''c1'', title = ''true'' \<rparr>]"

definition example_item :: "jsval \<Rightarrow> DatasetItem" where
  "example_item e =
     \<lparr> id_di = JStr ''a'', text_di = JStr ''...'', expectedCategory = e,
       metadata_di = JUndefined \<rparr>"

definition example_result :: "string \<Rightarrow> jsval \<Rightarrow> ClassificationResult" where
  "example_result i c =
     \<lparr> id_cr = JStr i, category = c, confidence = JNum (Finite (9 / 10)),
       reasoning = JStr ''r'' \<rparr>"

definition example_batch_result :: "ClassificationResult list \<Rightarrow> batch_result" where
  "example_batch_result rs =
     \<lparr> batchId = ''batch_1'', results = rs,
       usage = \<lparr> prompt_tokens = 1, completion_tokens = 1, total_tokens = 1 \<rparr> \<rparr>"

text \<open>
  One line of a batch output file, and the part of \<^verbatim>\<open>JSON.parse\<close> that reads it: the
  envelope and the message content it embeds (with its quotes escaped). On the malformed
  line \<^verbatim>\<open>{not json\<close> of the second file it fails, as \<^verbatim>\<open>JSON.parse\<close> does.
\<close>

definition escape_quotes :: "string \<Rightarrow> string" where
  "escape_quotes s = concat (map (\<lambda>c. if c = CHR 0x22 then [CHR 0x5C, c] else [c]) s)"

definition example_content :: string where
  "example_content = ''{\"category\":\"true\",\"confidence\":0.9,\"reasoning\":\"r\"}''"

definition example_line :: string where
  "example_line =
     ''{\"custom_id\":\"a\",\"response\":{\"body\":{\"choices\":[{\"message\":{\"content\":\"''
       @ escape_quotes example_content @ ''\"}}]}}}''"

definition example_JSON_parse :: "jsval \<Rightarrow> jsval option" where
  "example_JSON_parse v =
     (if v = JStr example_line then
        Some (JObj [(''custom_id'', JStr ''a''),
                    (''response'', JObj [(''body'', JObj [(''choices'',
                       JArr [JObj [(''message'', JObj [(''content'', JStr example_content)])]])])])])
      else if v = JStr example_content then
        Some (JObj [(''category'', JStr ''true''),
                    (''confidence'', JNum (Finite (9 / 10))),
                    (''reasoning'', JStr ''r'')])
      else None)"

definition example_files_content :: "string option \<Rightarrow> js_error + string" where
  "example_files_content fid =
     (if fid = Some ''file-good'' then Inr (example_line @ ''\<newline>'')
      else if fid = Some ''file-bad'' then Inr (example_line @ ''\<newline>{not json\<newline>'')
      else Inl (Error ''No such file''))"

definition example_batch :: "string \<Rightarrow> string option \<Rightarrow> batch" where
  "example_batch s fid =
     \<lparr> id_batch = ''batch_1'', status = s, output_file_id = fid,
       request_counts_completed = Some 1 \<rparr>"

section \<open>Auxiliary lemmas\<close>

subsection \<open>Strict equality\<close>

lemma strict_eq_imp_eq: "strict_eq a b \<Longrightarrow> a = b"
  by (induction a b rule: strict_eq.induct) auto

lemma strict_eq_JUndefined: "strict_eq JUndefined v = (v = JUndefined)"
  by (cases v) auto

subsection \<open>The loop of the evaluation step\<close>

lemma process_result_unmatched:
  "find (\<lambda>item. strict_eq (id_di item) (id_cr r)) items = None \<Longrightarrow>
     process_result dn cats items br st r = st"
  by (simp add: process_result_def)

lemma process_result_counters:
  "correctPredictions st \<le> totalPredictions st \<Longrightarrow>
   correctPredictions (process_result dn cats items br st r)
     \<le> totalPredictions (process_result dn cats items br st r)"
  by (simp add: process_result_def Let_def split: option.splits)

lemma foldl_counters:
  "correctPredictions st \<le> totalPredictions st \<Longrightarrow>
   correctPredictions (foldl (process_result dn cats items br) st rs)
     \<le> totalPredictions (foldl (process_result dn cats items br) st rs)"
  by (induction rs arbitrary: st) (simp_all add: process_result_counters)

lemma eval_loop_counters:
  "correctPredictions (eval_loop dn cats items br) \<le> totalPredictions (eval_loop dn cats items br)"
  unfolding eval_loop_def by (rule foldl_counters) (simp add: initial_state_def)

lemma evaluation_fst:
  "fst (evaluate_and_log_results dn cats items br) =
      \<lparr> accuracy = js_divide (correctPredictions (eval_loop dn cats items br))
                              (totalPredictions (eval_loop dn cats items br)),
        correctPredictions_ev = correctPredictions (eval_loop dn cats items br),
        totalPredictions_ev = totalPredictions (eval_loop dn cats items br),
        evaluationResults_ev = evaluationResults (eval_loop dn cats items br) \<rparr>"
  by (simp add: evaluate_and_log_results_def Let_def)

text \<open>The ids of the records are the ids of the matched results, in their order.\<close>

lemma process_result_ids:
  "map id_er (evaluationResults (process_result dn cats items br st r)) =
     map id_er (evaluationResults st) @
       filter (\<lambda>i. find (\<lambda>item. strict_eq (id_di item) i) items \<noteq> None) [id_cr r]"
  by (simp add: process_result_def Let_def split: option.splits)

lemma foldl_ids:
  "map id_er (evaluationResults (foldl (process_result dn cats items br) st rs)) =
     map id_er (evaluationResults st) @
       filter (\<lambda>i. find (\<lambda>item. strict_eq (id_di item) i) items \<noteq> None) (map id_cr rs)"
proof (induction rs arbitrary: st)
  case Nil
  show ?case by simp
next
  case (Cons r rs)
  show ?case
    unfolding foldl_Cons Cons.IH process_result_ids by simp
qed

lemma eval_loop_ids:
  "map id_er (evaluationResults (eval_loop dn cats items br)) =
     filter (\<lambda>i. find (\<lambda>item. strict_eq (id_di item) i) items \<noteq> None) (map id_cr (results br))"
  unfolding eval_loop_def foldl_ids by (simp add: initial_state_def)

lemma distinct_count_le_1: "distinct xs \<Longrightarrow> length (filter (\<lambda>y. y = x) xs) \<le> Suc 0"
  by (induction xs) (auto simp: filter_empty_conv)

text \<open>
  The records and the counters depend on the dataset items and the results only, not on
  the other arguments of the iteration (which go into the trace payloads).
\<close>

lemma process_result_core:
  "evaluationResults st = evaluationResults st' \<Longrightarrow>
   correctPredictions st = correctPredictions st' \<Longrightarrow>
   totalPredictions st = totalPredictions st' \<Longrightarrow>
   evaluationResults (process_result dn cats items br st r) =
     evaluationResults (process_result dn' cats' items br' st' r) \<and>
   correctPredictions (process_result dn cats items br st r) =
     correctPredictions (process_result dn' cats' items br' st' r) \<and>
   totalPredictions (process_result dn cats items br st r) =
     totalPredictions (process_result dn' cats' items br' st' r)"
  by (simp add: process_result_def Let_def split: option.splits)

lemma foldl_core:
  "evaluationResults st = evaluationResults st' \<Longrightarrow>
   correctPredictions st = correctPredictions st' \<Longrightarrow>
   totalPredictions st = totalPredictions st' \<Longrightarrow>
   evaluationResults (foldl (process_result dn cats items br) st rs) =
     evaluationResults (foldl (process_result dn' cats' items br') st' rs) \<and>
   correctPredictions (foldl (process_result dn cats items br) st rs) =
     correctPredictions (foldl (process_result dn' cats' items br') st' rs) \<and>
   totalPredictions (foldl (process_result dn cats items br) st rs) =
     totalPredictions (foldl (process_result dn' cats' items br') st' rs)"
proof (induction rs arbitrary: st st')
  case Nil
  then show ?case by simp
next
  case (Cons r rs)
  have step: "evaluationResults (process_result dn cats items br st r) =
     evaluationResults (process_result dn' cats' items br' st' r) \<and>
   correctPredictions (process_result dn cats items br st r) =
     correctPredictions (process_result dn' cats' items br' st' r) \<and>
   totalPredictions (process_result dn cats items br st r) =
     totalPredictions (process_result dn' cats' items br' st' r)"
    using Cons.prems by (rule process_result_core)
  show ?case
    unfolding foldl_Cons
    using step by (intro Cons.IH) simp_all
qed

lemma foldl_skip_unmatched:
  "find (\<lambda>item. strict_eq (id_di item) (id_cr r)) items = None \<Longrightarrow>
   foldl (process_result dn cats items br) st (rs1 @ r # rs2) =
   foldl (process_result dn cats items br) st (rs1 @ rs2)"
  by (simp add: process_result_unmatched)

text \<open>The definitions that evaluating the step on the example data unfolds.\<close>

lemmas evaluation_defs =
  evaluate_and_log_results_def eval_loop_def process_result_def initial_state_def
  new_Langfuse_def submit_def flushAsync_def js_divide_def floor_div_def Let_def
  example_categories_def example_item_def example_result_def example_batch_result_def

section \<open>The claims about the evaluation step\<close>

text \<open>
  C1 (as the code has it). The claim reads: accuracy is computed only when
  \<open>totalPredictions > 0\<close>, the division being guarded. The code has no guard: both the
  experiment trace and the returned object hold \<^verbatim>\<open>correctPredictions /
  totalPredictions\<close> in every run. The counters satisfy \<open>correctPredictions \<le>
  totalPredictions\<close>; when \<open>totalPredictions > 0\<close> the accuracy is their quotient, and
  when no result matches a dataset item it is \<open>0 / 0 = NaN\<close>; nothing is thrown.
\<close>

theorem accuracy_computed_unguarded:
  "accuracy (fst (evaluate_and_log_results dn cats items br)) =
     js_divide (correctPredictions_ev (fst (evaluate_and_log_results dn cats items br)))
               (totalPredictions_ev (fst (evaluate_and_log_results dn cats items br))) \<and>
   correctPredictions_ev (fst (evaluate_and_log_results dn cats items br))
     \<le> totalPredictions_ev (fst (evaluate_and_log_results dn cats items br)) \<and>
   accuracy (fst (evaluate_and_log_results dn cats items br)) =
     (if totalPredictions_ev (fst (evaluate_and_log_results dn cats items br)) = 0 then NaN
      else Finite (of_nat (correctPredictions_ev (fst (evaluate_and_log_results dn cats items br)))
                   / of_nat (totalPredictions_ev (fst (evaluate_and_log_results dn cats items br))))) \<and>
   (\<exists>x. last (flushed (snd (evaluate_and_log_results dn cats items br))) =
          BatchClassificationExperiment x \<and>
        exp_accuracy x = accuracy (fst (evaluate_and_log_results dn cats items br)))"
proof -
  have le: "correctPredictions (eval_loop dn cats items br)
      \<le> totalPredictions (eval_loop dn cats items br)"
    by (rule eval_loop_counters)
  have trace: "\<exists>x. last (flushed (snd (evaluate_and_log_results dn cats items br))) =
          BatchClassificationExperiment x \<and>
        exp_accuracy x = accuracy (fst (evaluate_and_log_results dn cats items br))"
    by (simp add: evaluate_and_log_results_def Let_def flushAsync_def submit_def)
  show ?thesis using le trace unfolding evaluation_fst by (simp add: js_divide_def)
qed

text \<open>
  C1, the claim as stated fails: with the dataset item \<open>a\<close> and the single result \<open>b\<close>
  no result matches, \<open>totalPredictions\<close> is 0, and the step still returns an accuracy,
  the \<open>NaN\<close> of the unguarded \<open>0 / 0\<close>.
\<close>

theorem accuracy_zero_total_counterexample:
  "totalPredictions_ev (fst (evaluate_and_log_results ''d'' example_categories
      [example_item (JStr ''true'')]
      (example_batch_result [example_result ''b'' (JStr ''true'')]))) = 0 \<and>
   accuracy (fst (evaluate_and_log_results ''d'' example_categories
      [example_item (JStr ''true'')]
      (example_batch_result [example_result ''b'' (JStr ''true'')]))) = js_divide 0 0 \<and>
   js_divide 0 0 = NaN"
  by (simp add: evaluation_defs)

text \<open>
  C3 (as the code has it). The claim reads: a result whose matching DatasetItem has no
  expectedCategory produces no EvaluationRecord and increments no counter. The loop
  never looks at whether \<^verbatim>\<open>expectedCategory\<close> is present: a result that matches an
  item without one appends one record with \<open>expected = undefined\<close> and increments
  \<open>totalPredictions\<close>; \<open>correctPredictions\<close> is incremented exactly when the predicted
  category is \<^verbatim>\<open>undefined\<close> too.
\<close>

theorem unlabelled_item_still_recorded:
  "find (\<lambda>item. strict_eq (id_di item) (id_cr r)) items = Some originalItem \<Longrightarrow>
   expectedCategory originalItem = JUndefined \<Longrightarrow>
   evaluationResults (process_result dn cats items br st r) =
     evaluationResults st @
       [\<lparr> id_er = id_cr r, expected = JUndefined, predicted = category r,
          correct = (category r = JUndefined), confidence_er = confidence r \<rparr>] \<and>
   totalPredictions (process_result dn cats items br st r) = totalPredictions st + 1 \<and>
   correctPredictions (process_result dn cats items br st r) =
     (if category r = JUndefined then correctPredictions st + 1 else correctPredictions st)"
  by (simp add: process_result_def Let_def strict_eq_JUndefined)

text \<open>C3, the theorem at the item \<open>a\<close> without a label and the result \<open>a: true\<close>.\<close>

theorem unlabelled_item_still_recorded_witness:
  "evaluationResults (process_result ''d'' example_categories [example_item JUndefined]
      (example_batch_result [example_result ''a'' (JStr ''true'')]) initial_state
      (example_result ''a'' (JStr ''true''))) =
     [\<lparr> id_er = JStr ''a'', expected = JUndefined, predicted = JStr ''true'',
        correct = False, confidence_er = JNum (Finite (9 / 10)) \<rparr>] \<and>
   totalPredictions (process_result ''d'' example_categories [example_item JUndefined]
      (example_batch_result [example_result ''a'' (JStr ''true'')]) initial_state
      (example_result ''a'' (JStr ''true''))) = 1 \<and>
   correctPredictions (process_result ''d'' example_categories [example_item JUndefined]
      (example_batch_result [example_result ''a'' (JStr ''true'')]) initial_state
      (example_result ''a'' (JStr ''true''))) = 0"
proof -
  have found: "find (\<lambda>item. strict_eq (id_di item) (id_cr (example_result ''a'' (JStr ''true''))))
      [example_item JUndefined] = Some (example_item JUndefined)"
    by (simp add: example_item_def example_result_def)
  have absent: "expectedCategory (example_item JUndefined) = JUndefined"
    by (simp add: example_item_def)
  show ?thesis
    using unlabelled_item_still_recorded [OF found absent, of "''d''" example_categories
        "example_batch_result [example_result ''a'' (JStr ''true'')]" initial_state]
    by (simp add: example_result_def initial_state_def)
qed

text \<open>
  C3, the claim as stated fails: the only dataset item has no expectedCategory, and the
  run still emits a record for it and counts it in \<open>totalPredictions\<close>.
\<close>

theorem unlabelled_item_counterexample:
  "expectedCategory (example_item JUndefined) = JUndefined \<and>
   evaluationResults_ev (fst (evaluate_and_log_results ''d'' example_categories
      [example_item JUndefined]
      (example_batch_result [example_result ''a'' (JStr ''true'')]))) =
     [\<lparr> id_er = JStr ''a'', expected = JUndefined, predicted = JStr ''true'',
        correct = False, confidence_er = JNum (Finite (9 / 10)) \<rparr>] \<and>
   totalPredictions_ev (fst (evaluate_and_log_results ''d'' example_categories
      [example_item JUndefined]
      (example_batch_result [example_result ''a'' (JStr ''true'')]))) = 1"
  by (simp add: evaluation_defs)

text \<open>
  C4 (as the code has it). The claim reads: at most one EvaluationRecord per DatasetItem,
  also for result lists with repeated ids. The loop emits one record per result that
  matches an item: the ids of the records are the ids of the matched results, in their
  order. So an item has at most one record when the results' ids are pairwise distinct.
\<close>

theorem one_record_per_matching_result:
  "map id_er (evaluationResults_ev (fst (evaluate_and_log_results dn cats items br))) =
     filter (\<lambda>i. find (\<lambda>item. strict_eq (id_di item) i) items \<noteq> None) (map id_cr (results br)) \<and>
   (distinct (map id_cr (results br)) \<longrightarrow>
      length (filter (\<lambda>e. id_er e = i)
                (evaluationResults_ev (fst (evaluate_and_log_results dn cats items br)))) \<le> 1)"
proof -
  let ?recs = "evaluationResults_ev (fst (evaluate_and_log_results dn cats items br))"
  have ids: "map id_er ?recs =
     filter (\<lambda>i. find (\<lambda>item. strict_eq (id_di item) i) items \<noteq> None) (map id_cr (results br))"
    by (simp add: evaluation_fst eval_loop_ids)
  have "length (filter (\<lambda>e. id_er e = i) ?recs) \<le> 1" if d: "distinct (map id_cr (results br))"
  proof -
    have "distinct (map id_er ?recs)" unfolding ids using d by (rule distinct_filter)
    then have "length (filter (\<lambda>y. y = i) (map id_er ?recs)) \<le> Suc 0"
      by (rule distinct_count_le_1)
    moreover have "length (filter (\<lambda>y. y = i) (map id_er ?recs)) = length (filter (\<lambda>e. id_er e = i) ?recs)"
      by (simp add: filter_map o_def)
    ultimately show ?thesis by simp
  qed
  with ids show ?thesis by blast
qed

text \<open>C4, the theorem at the results \<open>a\<close>, \<open>b\<close> with distinct ids.\<close>

theorem one_record_per_matching_result_witness:
  "distinct (map id_cr (results (example_batch_result
      [example_result ''a'' (JStr ''true''), example_result ''b'' (JStr ''false'')]))) \<and>
   map id_er (evaluationResults_ev (fst (evaluate_and_log_results ''d'' example_categories
      [example_item (JStr ''true'')]
      (example_batch_result
        [example_result ''a'' (JStr ''true''), example_result ''b'' (JStr ''false'')])))) = [JStr ''a''] \<and>
   length (filter (\<lambda>e. id_er e = JStr ''a'')
      (evaluationResults_ev (fst (evaluate_and_log_results ''d'' example_categories
      [example_item (JStr ''true'')]
      (example_batch_result
        [example_result ''a'' (JStr ''true''), example_result ''b'' (JStr ''false'')]))))) \<le> 1"
proof -
  have d: "distinct (map id_cr (results (example_batch_result
      [example_result ''a'' (JStr ''true''), example_result ''b'' (JStr ''false'')])))"
    by (simp add: example_batch_result_def example_result_def)
  have f: "filter (\<lambda>i. find (\<lambda>item. strict_eq (id_di item) i) [example_item (JStr ''true'')] \<noteq> None)
      (map id_cr (results (example_batch_result
        [example_result ''a'' (JStr ''true''), example_result ''b'' (JStr ''false'')]))) = [JStr ''a'']"
    by (simp add: example_batch_result_def example_result_def example_item_def)
  show ?thesis
    using d f one_record_per_matching_result [of "''d''" example_categories
        "[example_item (JStr ''true'')]"
        "example_batch_result
          [example_result ''a'' (JStr ''true''), example_result ''b'' (JStr ''false'')]"
        "JStr ''a''"]
    by simp
qed

text \<open>
  C4, the claim as stated fails: two results with the id \<open>a\<close> give two records for the
  dataset item \<open>a\<close>.
\<close>

theorem duplicate_result_ids_counterexample:
  "length (filter (\<lambda>e. id_er e = id_di (example_item (JStr ''true'')))
      (evaluationResults_ev (fst (evaluate_and_log_results ''d'' example_categories
      [example_item (JStr ''true'')]
      (example_batch_result
        [example_result ''a'' (JStr ''true''), example_result ''a'' (JStr ''false'')]))))) = 2"
  by (simp add: evaluation_defs)

text \<open>
  C5. A result \<open>r\<close> whose id is strictly equal to the id of no loaded DatasetItem
  (in particular one whose id differs from all of them, by \<open>strict_eq_imp_eq\<close>) leaves
  the state of the loop unchanged; the value of the step (records, counters, accuracy) is
  the one of the run without \<open>r\<close>; and no record carries the id of \<open>r\<close>.
\<close>

theorem unmatched_result_dropped:
  assumes "\<forall>item\<in>set items. \<not> strict_eq (id_di item) (id_cr r)"
  shows "process_result dn cats items br st r = st \<and>
         fst (evaluate_and_log_results dn cats items (br\<lparr>results := rs1 @ r # rs2\<rparr>)) =
         fst (evaluate_and_log_results dn cats items (br\<lparr>results := rs1 @ rs2\<rparr>)) \<and>
         id_cr r \<notin> id_er ` set (evaluationResults_ev
            (fst (evaluate_and_log_results dn cats items (br\<lparr>results := rs1 @ r # rs2\<rparr>))))"
proof -
  have none: "find (\<lambda>item. strict_eq (id_di item) (id_cr r)) items = None"
    using assms by (simp add: find_None_iff)
  let ?b1 = "br\<lparr>results := rs1 @ r # rs2\<rparr>" and ?b2 = "br\<lparr>results := rs1 @ rs2\<rparr>"
  have a: "process_result dn cats items br st r = st"
    using none by (rule process_result_unmatched)
  have skip: "eval_loop dn cats items ?b1 =
      foldl (process_result dn cats items ?b1) initial_state (rs1 @ rs2)"
    unfolding eval_loop_def using foldl_skip_unmatched [OF none] by simp
  have core: "evaluationResults (eval_loop dn cats items ?b1) = evaluationResults (eval_loop dn cats items ?b2) \<and>
      correctPredictions (eval_loop dn cats items ?b1) = correctPredictions (eval_loop dn cats items ?b2) \<and>
      totalPredictions (eval_loop dn cats items ?b1) = totalPredictions (eval_loop dn cats items ?b2)"
    unfolding skip unfolding eval_loop_def
    using foldl_core [of initial_state initial_state dn cats items ?b1 "rs1 @ rs2" dn cats ?b2]
    by simp
  have b: "fst (evaluate_and_log_results dn cats items ?b1) = fst (evaluate_and_log_results dn cats items ?b2)"
    unfolding evaluation_fst using core by simp
  have "set (map id_er (evaluationResults (eval_loop dn cats items ?b1))) \<subseteq>
      {i. find (\<lambda>item. strict_eq (id_di item) i) items \<noteq> None}"
    unfolding eval_loop_ids by auto
  then have c: "id_cr r \<notin> id_er ` set (evaluationResults_ev (fst (evaluate_and_log_results dn cats items ?b1)))"
    unfolding evaluation_fst using none by auto
  from a b c show ?thesis by blast
qed

text \<open>C5, the theorem at the dataset item \<open>a\<close> and the results \<open>a\<close>, \<open>b\<close>.\<close>

theorem unmatched_result_dropped_witness:
  "process_result ''d'' example_categories [example_item (JStr ''true'')]
      (example_batch_result []) initial_state (example_result ''b'' (JStr ''true'')) = initial_state \<and>
   fst (evaluate_and_log_results ''d'' example_categories [example_item (JStr ''true'')]
      (example_batch_result
         [example_result ''a'' (JStr ''true''), example_result ''b'' (JStr ''true'')])) =
   fst (evaluate_and_log_results ''d'' example_categories [example_item (JStr ''true'')]
      (example_batch_result [example_result ''a'' (JStr ''true'')])) \<and>
   totalPredictions_ev (fst (evaluate_and_log_results ''d'' example_categories
      [example_item (JStr ''true'')]
      (example_batch_result
         [example_result ''a'' (JStr ''true''), example_result ''b'' (JStr ''true'')]))) = 1 \<and>
   JStr ''b'' \<notin> id_er ` set (evaluationResults_ev
      (fst (evaluate_and_log_results ''d'' example_categories [example_item (JStr ''true'')]
        (example_batch_result
           [example_result ''a'' (JStr ''true''), example_result ''b'' (JStr ''true'')]))))"
proof -
  have un: "\<forall>item\<in>set [example_item (JStr ''true'')].
      \<not> strict_eq (id_di item) (id_cr (example_result ''b'' (JStr ''true'')))"
    by (simp add: example_item_def example_result_def)
  have upd1: "(example_batch_result [])\<lparr>results :=
       [example_result ''a'' (JStr ''true'')] @ example_result ''b'' (JStr ''true'') # []\<rparr> =
     example_batch_result [example_result ''a'' (JStr ''true''), example_result ''b'' (JStr ''true'')]"
    by (simp add: example_batch_result_def)
  have upd2: "(example_batch_result [])\<lparr>results := [example_result ''a'' (JStr ''true'')] @ []\<rparr> =
     example_batch_result [example_result ''a'' (JStr ''true'')]"
    by (simp add: example_batch_result_def)
  have one: "totalPredictions_ev (fst (evaluate_and_log_results ''d'' example_categories
      [example_item (JStr ''true'')]
      (example_batch_result [example_result ''a'' (JStr ''true'')]))) = 1"
    by (simp add: evaluation_defs)
  have idb: "id_cr (example_result ''b'' (JStr ''true'')) = JStr ''b''"
    by (simp add: example_result_def)
  note dropped =
    unmatched_result_dropped [OF un, of "''d''" example_categories "example_batch_result []"
        initial_state "[example_result ''a'' (JStr ''true'')]" "[]", unfolded upd1 upd2 idb]
  have same: "fst (evaluate_and_log_results ''d'' example_categories [example_item (JStr ''true'')]
      (example_batch_result
         [example_result ''a'' (JStr ''true''), example_result ''b'' (JStr ''true'')])) =
   fst (evaluate_and_log_results ''d'' example_categories [example_item (JStr ''true'')]
      (example_batch_result [example_result ''a'' (JStr ''true'')]))"
    using dropped by blast
  have total: "totalPredictions_ev (fst (evaluate_and_log_results ''d'' example_categories
      [example_item (JStr ''true'')]
      (example_batch_result
         [example_result ''a'' (JStr ''true''), example_result ''b'' (JStr ''true'')]))) = 1"
    unfolding same by (rule one)
  from dropped total show ?thesis by blast
qed

subsection \<open>The trace sink during the loop\<close>

lemma process_result_sink:
  "flushed (langfuse (process_result dn cats items br st r)) = flushed (langfuse st) \<and>
   length (queue (langfuse (process_result dn cats items br st r))) + 2 * totalPredictions st =
     length (queue (langfuse st)) + 2 * totalPredictions (process_result dn cats items br st r)"
  by (simp add: process_result_def Let_def submit_def split: option.splits)

lemma foldl_sink:
  "flushed (langfuse (foldl (process_result dn cats items br) st rs)) = flushed (langfuse st) \<and>
   length (queue (langfuse (foldl (process_result dn cats items br) st rs))) + 2 * totalPredictions st =
     length (queue (langfuse st)) +
       2 * totalPredictions (foldl (process_result dn cats items br) st rs)"
proof (induction rs arbitrary: st)
  case Nil
  show ?case by simp
next
  case (Cons r rs)
  show ?case
    using Cons.IH [of "process_result dn cats items br st r"]
      process_result_sink [of dn cats items br st r]
    by simp
qed

lemma eval_loop_sink:
  "flushed (langfuse (eval_loop dn cats items br)) = [] \<and>
   length (queue (langfuse (eval_loop dn cats items br))) =
     2 * totalPredictions (eval_loop dn cats items br)"
  unfolding eval_loop_def
  using foldl_sink [of dn cats items br initial_state "results br"]
  by (simp add: initial_state_def new_Langfuse_def)

text \<open>
  C9. The client's state at the return of the step is the one after \<open>flushAsync\<close>, which
  is applied after the experiment trace was submitted, itself after the loop. Nothing is
  flushed during the loop, which submits two records per counted result (the trace and
  its generation). At the return the queue is empty, and the flushed records are those
  of the loop followed by the experiment trace.
\<close>

theorem traces_flushed_before_return:
  "snd (evaluate_and_log_results dn cats items br) =
     flushAsync (submit
       (BatchClassificationExperiment
          \<lparr> exp_datasetName = dn,
            exp_totalItems = length items,
            exp_categories = map title cats,
            exp_accuracy = accuracy (fst (evaluate_and_log_results dn cats items br)),
            exp_correctPredictions = correctPredictions_ev (fst (evaluate_and_log_results dn cats items br)),
            exp_totalPredictions = totalPredictions_ev (fst (evaluate_and_log_results dn cats items br)),
            exp_batchId = batchId br,
            exp_usage = usage br,
            exp_evaluationResults = evaluationResults_ev (fst (evaluate_and_log_results dn cats items br)) \<rparr>)
       (langfuse (eval_loop dn cats items br))) \<and>
   queue (snd (evaluate_and_log_results dn cats items br)) = [] \<and>
   flushed (langfuse (eval_loop dn cats items br)) = [] \<and>
   length (queue (langfuse (eval_loop dn cats items br))) =
     2 * totalPredictions_ev (fst (evaluate_and_log_results dn cats items br)) \<and>
   flushed (snd (evaluate_and_log_results dn cats items br)) =
     queue (langfuse (eval_loop dn cats items br)) @
     [BatchClassificationExperiment
          \<lparr> exp_datasetName = dn,
            exp_totalItems = length items,
            exp_categories = map title cats,
            exp_accuracy = accuracy (fst (evaluate_and_log_results dn cats items br)),
            exp_correctPredictions = correctPredictions_ev (fst (evaluate_and_log_results dn cats items br)),
            exp_totalPredictions = totalPredictions_ev (fst (evaluate_and_log_results dn cats items br)),
            exp_batchId = batchId br,
            exp_usage = usage br,
            exp_evaluationResults = evaluationResults_ev (fst (evaluate_and_log_results dn cats items br)) \<rparr>]"
  using eval_loop_sink [of dn cats items br]
  by (simp add: evaluate_and_log_results_def Let_def flushAsync_def submit_def)

text \<open>
  C8. On two strings \<^verbatim>\<open>===\<close> is equality of the strings, character by character: it
  tells \<open>true\<close> from \<open>True\<close> and from \<open>true\<close> followed by a space. For one dataset item
  with the label \<open>e\<close> and one result with the same id and the category \<open>p\<close>, the step
  gives \<open>totalPredictions = 1\<close>, \<open>correctPredictions = 1\<close> and accuracy 1 when
  \<open>e = p\<close>, and \<open>correctPredictions = 0\<close> and accuracy 0 otherwise; so on the example
  of the specification (item \<open>a\<close> labelled \<open>true\<close>, result \<open>true\<close>, then \<open>false\<close>).
\<close>

theorem correctness_is_exact_string_equality:
  "strict_eq (JStr e) (JStr p) = (e = p) \<and>
   \<not> strict_eq (JStr ''true'') (JStr ''True'') \<and>
   \<not> strict_eq (JStr ''true'') (JStr ''true '') \<and>
   fst (evaluate_and_log_results dn cats
          [item\<lparr> id_di := JStr i, expectedCategory := JStr e \<rparr>]
          (br\<lparr> results := [r\<lparr> id_cr := JStr i, category := JStr p \<rparr>] \<rparr>)) =
     \<lparr> accuracy = (if e = p then Finite 1 else Finite 0),
       correctPredictions_ev = (if e = p then 1 else 0),
       totalPredictions_ev = 1,
       evaluationResults_ev =
         [\<lparr> id_er = JStr i, expected = JStr e, predicted = JStr p, correct = (e = p),
            confidence_er = confidence r \<rparr>] \<rparr> \<and>
   fst (evaluate_and_log_results ''d'' example_categories [example_item (JStr ''true'')]
          (example_batch_result [example_result ''a'' (JStr ''true'')])) =
     \<lparr> accuracy = Finite 1, correctPredictions_ev = 1, totalPredictions_ev = 1,
       evaluationResults_ev =
         [\<lparr> id_er = JStr ''a'', expected = JStr ''true'', predicted = JStr ''true'',
            correct = True, confidence_er = JNum (Finite (9 / 10)) \<rparr>] \<rparr> \<and>
   fst (evaluate_and_log_results ''d'' example_categories [example_item (JStr ''true'')]
          (example_batch_result [example_result ''a'' (JStr ''false'')])) =
     \<lparr> accuracy = Finite 0, correctPredictions_ev = 0, totalPredictions_ev = 1,
       evaluationResults_ev =
         [\<lparr> id_er = JStr ''a'', expected = JStr ''true'', predicted = JStr ''false'',
            correct = False, confidence_er = JNum (Finite (9 / 10)) \<rparr>] \<rparr>"
  by (simp add: evaluation_defs)

section \<open>The claim about the normalization\<close>

text \<open>
  C10. \<open>text\<close> is \<^verbatim>\<open>item.input?.text\<close> when that is truthy and the raw
  \<^verbatim>\<open>item.input\<close> otherwise, and \<open>expectedCategory\<close> likewise from
  \<^verbatim>\<open>item.expectedOutput?.category\<close>. The optional read gives the field of an object and
  \<^verbatim>\<open>undefined\<close> on a string, \<^verbatim>\<open>undefined\<close> or \<^verbatim>\<open>null\<close>. So an input object
  whose \<open>text\<close> is the empty string yields the whole object, one whose \<open>text\<close> is a
  non-empty string yields that string, and a plain string yields itself.
\<close>

theorem normalize_item_truthiness_fallback:
  "text_di (normalize_item item) =
     (if truthy (get_prop_opt (raw_input item) ''text'')
      then get_prop_opt (raw_input item) ''text'' else raw_input item) \<and>
   expectedCategory (normalize_item item) =
     (if truthy (get_prop_opt (raw_expectedOutput item) ''category'')
      then get_prop_opt (raw_expectedOutput item) ''category'' else raw_expectedOutput item) \<and>
   get_prop_opt (JObj kvs) p = (case map_of kvs p of None \<Rightarrow> JUndefined | Some v \<Rightarrow> v) \<and>
   get_prop_opt (JStr s) p = JUndefined \<and>
   get_prop_opt JUndefined p = JUndefined \<and>
   get_prop_opt JNull p = JUndefined \<and>
   text_di (normalize_item (item\<lparr> raw_input := JObj ((''text'', JStr '''') # kvs) \<rparr>)) =
     JObj ((''text'', JStr '''') # kvs) \<and>
   text_di (normalize_item (item\<lparr> raw_input := JObj ((''text'', JStr (c # s)) # kvs) \<rparr>)) =
     JStr (c # s) \<and>
   text_di (normalize_item (item\<lparr> raw_input := JStr s \<rparr>)) = JStr s \<and>
   expectedCategory (normalize_item (item\<lparr> raw_expectedOutput := JObj ((''category'', JStr '''') # kvs) \<rparr>)) =
     JObj ((''category'', JStr '''') # kvs) \<and>
   expectedCategory (normalize_item (item\<lparr> raw_expectedOutput := JStr s \<rparr>)) = JStr s"
  by (simp add: normalize_item_def js_or_def get_prop_opt_def)

section \<open>The claims about the poll\<close>

subsection \<open>The example files\<close>

lemma example_bad_file_lines:
  "split_newline (trim (example_line @ ''\<newline>{not json\<newline>'')) = [example_line, ''{not json'']"
  by (simp add: example_line_def example_content_def escape_quotes_def trim_def js_whitespace_def)

text \<open>A trailing line that holds only a no-break space is trimmed away with the line feed.\<close>

lemma example_trailing_nbsp_trimmed:
  "split_newline (trim (example_line @ [CHR 0x0A, CHR 0xA0])) = [example_line]"
  by (simp add: example_line_def example_content_def escape_quotes_def trim_def js_whitespace_def)

lemma example_good_file_decoded:
  "decode_lines example_JSON_parse (split_newline (trim (example_line @ ''\<newline>''))) [] =
     Inr [example_result ''a'' (JStr ''true'')]"
  by (simp add: example_line_def example_content_def escape_quotes_def example_JSON_parse_def
       trim_def js_whitespace_def decode_line_def message_content_def and_then_def
       example_result_def)

lemma example_line_decoded:
  "decode_line example_JSON_parse example_line = Inr (example_result ''a'' (JStr ''true''))"
  by (simp add: example_line_def example_content_def escape_quotes_def example_JSON_parse_def
       decode_line_def message_content_def and_then_def example_result_def)

subsection \<open>The executor and the decoding\<close>

lemma step_do_constant_failure:
  "(\<And>m. n \<le> m \<Longrightarrow> work m = Inl e) \<Longrightarrow> retryable e \<Longrightarrow>
     step_do k work n = (Inl e, replicate k e)"
proof (induction k arbitrary: n)
  case 0
  then show ?case by simp
next
  case (Suc k)
  have "work n = Inl e" using Suc.prems(1) by simp
  moreover have "step_do k work (Suc n) = (Inl e, replicate k e)"
    using Suc.IH [of "Suc n"] Suc.prems by simp
  ultimately show ?case using Suc.prems(2) by simp
qed

lemma step_do_all_fail:
  "(\<And>m. \<exists>e. work m = Inl e) \<Longrightarrow> \<exists>e. fst (step_do k work n) = Inl e"
proof (induction k arbitrary: n)
  case 0
  then show ?case by simp
next
  case (Suc k)
  obtain e where e: "work n = Inl e" using Suc.prems by blast
  obtain e' where e': "fst (step_do k work (Suc n)) = Inl e'"
    using Suc.IH [of "Suc n"] Suc.prems by blast
  show ?case using e e' by (simp add: split_beta)
qed

text \<open>
  C2 (the code on the statuses running, failed). On a failure terminal the callback
  throws an \<^verbatim>\<open>Error\<close> whose message names the status. It is a plain \<^verbatim>\<open>Error\<close>, as
  the one thrown while the batch is still processing, so the executor retries it: with
  the answers running, failed (the batch stays failed), the step polls until its 1440
  retries are used up and only then fails with the error of the terminal status.
\<close>

theorem failed_batch_is_polled_again:
  "poll_attempt P F (b\<lparr>status := ''failed''\<rparr>) =
     Inl (Error ''Batch processing failed with status: failed'') \<and>
   poll_attempt P F (b\<lparr>status := ''expired''\<rparr>) =
     Inl (Error ''Batch processing failed with status: expired'') \<and>
   poll_attempt P F (b\<lparr>status := ''cancelled''\<rparr>) =
     Inl (Error ''Batch processing failed with status: cancelled'') \<and>
   retryable (Error ''Batch processing failed with status: failed'') \<and>
   poll_batch_completion P F (answers [a\<lparr>status := ''running''\<rparr>] (b\<lparr>status := ''failed''\<rparr>)) =
     (Inl (Error ''Batch processing failed with status: failed''),
      Error ''Batch still processing, status: running'' #
        replicate 1439 (Error ''Batch processing failed with status: failed'')) \<and>
   length (snd (poll_batch_completion P F
      (answers [a\<lparr>status := ''running''\<rparr>] (b\<lparr>status := ''failed''\<rparr>)))) = 1440"
proof -
  let ?work = "\<lambda>n. poll_attempt P F (answers [a\<lparr>status := ''running''\<rparr>] (b\<lparr>status := ''failed''\<rparr>) n)"
  let ?e = "Error ''Batch processing failed with status: failed''"
  have w0: "?work 0 = Inl (Error ''Batch still processing, status: running'')"
    by (simp add: answers_def poll_attempt_def)
  have wn: "?work m = Inl ?e" if "Suc 0 \<le> m" for m
  proof -
    have "answers [a\<lparr>status := ''running''\<rparr>] (b\<lparr>status := ''failed''\<rparr>) m =
        b\<lparr>status := ''failed''\<rparr>"
      using that by (simp add: answers_def)
    then show ?thesis by (simp add: poll_attempt_def)
  qed
  have rest: "step_do 1439 ?work (Suc 0) = (Inl ?e, replicate 1439 ?e)"
    by (rule step_do_constant_failure) (simp_all add: wn)
  have "(1440::nat) = Suc 1439" by simp
  then have run: "step_do 1440 ?work 0 =
      (Inl ?e, Error ''Batch still processing, status: running'' # replicate 1439 ?e)"
    using w0 rest by (simp only: step_do.simps) simp
  show ?thesis
    unfolding poll_batch_completion_def poll_retry_limit_def run
    by (simp add: poll_attempt_def)
qed

text \<open>
  C6. For the answers queued, running, completed, where the output file of the completed
  batch decodes to \<open>rs\<close>: the step waits twice, on the two "still processing" errors,
  and then resolves with the batch id, the decoded results \<open>rs\<close> and the usage.
\<close>

theorem two_waits_then_completed:
  assumes "F (output_file_id c) = Inr resultsText"
    and "decode_lines P (split_newline (trim resultsText)) [] = Inr rs"
  shows "poll_batch_completion P F
      (answers [a\<lparr>status := ''queued''\<rparr>, b\<lparr>status := ''running''\<rparr>] (c\<lparr>status := ''completed''\<rparr>)) =
     (Inr \<lparr> batchId = id_batch c, results = rs,
            usage = \<lparr> prompt_tokens = completed_or_0 c, completion_tokens = completed_or_0 c,
                      total_tokens = completed_or_0 c \<rparr> \<rparr>,
      [Error ''Batch still processing, status: queued'',
       Error ''Batch still processing, status: running''])"
proof -
  let ?work = "\<lambda>n. poll_attempt P F
     (answers [a\<lparr>status := ''queued''\<rparr>, b\<lparr>status := ''running''\<rparr>] (c\<lparr>status := ''completed''\<rparr>) n)"
  have w0: "?work 0 = Inl (Error ''Batch still processing, status: queued'')"
    by (simp add: answers_def poll_attempt_def)
  have w1: "?work (Suc 0) = Inl (Error ''Batch still processing, status: running'')"
    by (simp add: answers_def poll_attempt_def)
  have w2: "?work (Suc (Suc 0)) = Inr \<lparr> batchId = id_batch c, results = rs,
            usage = \<lparr> prompt_tokens = completed_or_0 c, completion_tokens = completed_or_0 c,
                      total_tokens = completed_or_0 c \<rparr> \<rparr>"
    using assms by (simp add: answers_def poll_attempt_def and_then_def completed_or_0_def)
  have "(1440::nat) = Suc (Suc (Suc 1437))" by simp
  then show ?thesis
    unfolding poll_batch_completion_def poll_retry_limit_def
    using w0 w1 w2 by (simp only: step_do.simps) simp
qed

text \<open>C6, the theorem at the first example file.\<close>

theorem two_waits_then_completed_witness:
  "poll_batch_completion example_JSON_parse example_files_content
      (answers [example_batch ''queued'' None, example_batch ''running'' None]
         (example_batch ''completed'' (Some ''file-good''))) =
     (Inr (example_batch_result [example_result ''a'' (JStr ''true'')]),
      [Error ''Batch still processing, status: queued'',
       Error ''Batch still processing, status: running''])"
proof -
  have content: "example_files_content (output_file_id (example_batch ''completed'' (Some ''file-good''))) =
      Inr (example_line @ ''\<newline>'')"
    by (simp add: example_batch_def example_files_content_def)
  have upd: "(example_batch ''queued'' None)\<lparr>status := ''queued''\<rparr> = example_batch ''queued'' None"
    "(example_batch ''running'' None)\<lparr>status := ''running''\<rparr> = example_batch ''running'' None"
    "(example_batch ''completed'' (Some ''file-good''))\<lparr>status := ''completed''\<rparr> =
       example_batch ''completed'' (Some ''file-good'')"
    by (simp_all add: example_batch_def)
  have res: "\<lparr> batchId = id_batch (example_batch ''completed'' (Some ''file-good'')),
        results = [example_result ''a'' (JStr ''true'')],
        usage = \<lparr> prompt_tokens = completed_or_0 (example_batch ''completed'' (Some ''file-good'')),
                  completion_tokens = completed_or_0 (example_batch ''completed'' (Some ''file-good'')),
                  total_tokens = completed_or_0 (example_batch ''completed'' (Some ''file-good'')) \<rparr> \<rparr> =
      example_batch_result [example_result ''a'' (JStr ''true'')]"
    by (simp add: example_batch_def example_batch_result_def completed_or_0_def)
  show ?thesis
    using two_waits_then_completed [where P = example_JSON_parse and F = example_files_content
        and c = "example_batch ''completed'' (Some ''file-good'')"
        and a = "example_batch ''queued'' None" and b = "example_batch ''running'' None",
        OF content example_good_file_decoded]
    unfolding upd res .
qed

lemma get_prop_error: "get_prop v p = Inl e \<Longrightarrow> e = TypeError"
  by (cases v) auto

lemma get_index0_error: "get_index0 v = Inl e \<Longrightarrow> e = TypeError"
  by (cases v) auto

lemma message_content_error: "message_content r = Inl e \<Longrightarrow> e = TypeError"
  unfolding message_content_def and_then_def
  by (auto split: sum.splits dest: get_prop_error get_index0_error)

lemma decode_line_error: "decode_line P l = Inl e \<Longrightarrow> e = SyntaxError \<or> e = TypeError"
  unfolding decode_line_def and_then_def
  by (auto split: sum.splits option.splits dest: get_prop_error message_content_error)

lemma decode_lines_error:
  "decode_lines P ls acc = Inl e \<Longrightarrow> e = SyntaxError \<or> e = TypeError"
proof (induction ls arbitrary: acc)
  case Nil
  then show ?case by simp
next
  case (Cons l ls)
  show ?case
  proof (cases "decode_line P l")
    case (Inl e')
    with Cons.prems have "e' = e" by simp
    with Inl show ?thesis using decode_line_error by blast
  next
    case (Inr r)
    with Cons.prems have "decode_lines P ls (acc @ [r]) = Inl e" by simp
    then show ?thesis by (rule Cons.IH)
  qed
qed

lemma decode_lines_bad_line:
  "l \<in> set ls \<Longrightarrow> decode_line P l = Inl e \<Longrightarrow> \<exists>e'. decode_lines P ls acc = Inl e'"
proof (induction ls arbitrary: acc)
  case Nil
  then show ?case by simp
next
  case (Cons x ls)
  show ?case
  proof (cases "decode_line P x")
    case (Inl e')
    then show ?thesis by simp
  next
    case (Inr r)
    with Cons.prems have "l \<in> set ls" by auto
    then have "\<exists>e'. decode_lines P ls (acc @ [r]) = Inl e'"
      using Cons.prems(2) by (rule Cons.IH)
    with Inr show ?thesis by simp
  qed
qed

lemma unparseable_line_fails:
  "P (JStr l) = None \<or>
     (\<exists>response content. P (JStr l) = Some response \<and>
        message_content response = Inr content \<and> P content = None) \<Longrightarrow>
   decode_line P l = Inl SyntaxError"
  by (auto simp: decode_line_def and_then_def)

lemma decode_error_retryable: "e = SyntaxError \<or> e = TypeError \<Longrightarrow> retryable e"
  by auto

text \<open>
  C7. Let the output file of a completed batch have a line whose envelope \<^verbatim>\<open>JSON.parse\<close>
  rejects, or whose message content it rejects. Then the callback throws a SyntaxError or
  a TypeError and returns no results, whatever the lines before the malformed one hold;
  the run on this batch fails with that error (every retry of the step meets the same
  file); and a run in which answers that are not completed precede the batch fails as
  well: no run result is produced.
\<close>

theorem malformed_line_fails_run:
  assumes completed: "status b = ''completed''"
    and content: "F (output_file_id b) = Inr resultsText"
    and line: "l \<in> set (split_newline (trim resultsText))"
    and bad: "P (JStr l) = None \<or>
       (\<exists>response content. P (JStr l) = Some response \<and>
          message_content response = Inr content \<and> P content = None)"
    and before: "\<forall>p\<in>set pre. status p \<noteq> ''completed''"
  shows "\<exists>e. (e = SyntaxError \<or> e = TypeError) \<and>
           poll_attempt P F b = Inl e \<and>
           run dn cats items P F (answers [] b) = Inl e \<and>
           (\<exists>e'. run dn cats items P F (answers pre b) = Inl e')"
proof -
  have "decode_line P l = Inl SyntaxError" using bad by (rule unparseable_line_fails)
  with line obtain e where e: "decode_lines P (split_newline (trim resultsText)) [] = Inl e"
    using decode_lines_bad_line by blast
  then have kind: "e = SyntaxError \<or> e = TypeError" by (rule decode_lines_error)
  have attempt: "poll_attempt P F b = Inl e"
    using completed content e by (simp add: poll_attempt_def and_then_def)
  have "answers [] b m = b" for m by (simp add: answers_def)
  then have "step_do poll_retry_limit (\<lambda>n. poll_attempt P F (answers [] b n)) 0 =
      (Inl e, replicate poll_retry_limit e)"
    using attempt kind by (intro step_do_constant_failure decode_error_retryable) simp_all
  then have run1: "run dn cats items P F (answers [] b) = Inl e"
    by (simp add: run_def poll_batch_completion_def)
  have "\<exists>e'. poll_attempt P F (answers pre b m) = Inl e'" for m
  proof (cases "m < length pre")
    case True
    then have "answers pre b m = pre ! m" by (simp add: answers_def)
    moreover have "status (pre ! m) \<noteq> ''completed''" using before True by simp
    ultimately show ?thesis by (simp add: poll_attempt_def)
  next
    case False
    then have "answers pre b m = b" by (simp add: answers_def)
    with attempt show ?thesis by simp
  qed
  then have "\<exists>e'. fst (step_do poll_retry_limit
      (\<lambda>n. poll_attempt P F (answers pre b n)) 0) = Inl e'"
    by (rule step_do_all_fail)
  then have run2: "\<exists>e'. run dn cats items P F (answers pre b) = Inl e'"
    by (auto simp: run_def poll_batch_completion_def)
  from kind attempt run1 run2 show ?thesis by blast
qed

text \<open>
  C7, the theorem at the second example file, whose first line decodes and whose second
  line is malformed.
\<close>

theorem malformed_line_fails_run_witness:
  "poll_attempt example_JSON_parse example_files_content
      (example_batch ''completed'' (Some ''file-bad'')) = Inl SyntaxError \<and>
   decode_line example_JSON_parse example_line = Inr (example_result ''a'' (JStr ''true'')) \<and>
   run ''d'' example_categories [example_item (JStr ''true'')] example_JSON_parse
      example_files_content (answers [] (example_batch ''completed'' (Some ''file-bad''))) =
     Inl SyntaxError \<and>
   (\<exists>e'. run ''d'' example_categories [example_item (JStr ''true'')] example_JSON_parse
      example_files_content
      (answers [example_batch ''running'' None]
         (example_batch ''completed'' (Some ''file-bad''))) =
     Inl e')"
proof -
  let ?b = "example_batch ''completed'' (Some ''file-bad'')"
  have completed: "status ?b = ''completed''" by (simp add: example_batch_def)
  have content: "example_files_content (output_file_id ?b) =
      Inr (example_line @ ''\<newline>{not json\<newline>'')"
    by (simp add: example_batch_def example_files_content_def)
  have line: "''{not json'' \<in> set (split_newline (trim (example_line @ ''\<newline>{not json\<newline>'')))"
    unfolding example_bad_file_lines by simp
  have bad: "example_JSON_parse (JStr ''{not json'') = None \<or>
       (\<exists>response content. example_JSON_parse (JStr ''{not json'') = Some response \<and>
          message_content response = Inr content \<and> example_JSON_parse content = None)"
    by (simp add: example_JSON_parse_def example_line_def example_content_def)
  have before: "\<forall>p\<in>set [example_batch ''running'' None]. status p \<noteq> ''completed''"
    by (simp add: example_batch_def)
  have "decode_line example_JSON_parse ''{not json'' = Inl SyntaxError"
    using bad by (rule unparseable_line_fails)
  then have "decode_lines example_JSON_parse [example_line, ''{not json''] [] = Inl SyntaxError"
    by (simp add: example_line_decoded)
  then have attempt: "poll_attempt example_JSON_parse example_files_content ?b = Inl SyntaxError"
    by (simp add: poll_attempt_def and_then_def completed content example_bad_file_lines)
  from malformed_line_fails_run [where P = example_JSON_parse and F = example_files_content
      and b = "example_batch ''completed'' (Some ''file-bad'')"
      and dn = "''d''" and cats = example_categories
      and items = "[example_item (JStr ''true'')]", OF completed content line bad before]
  obtain e where e: "poll_attempt example_JSON_parse example_files_content ?b = Inl e"
    and r1: "run ''d'' example_categories [example_item (JStr ''true'')] example_JSON_parse
      example_files_content (answers [] ?b) = Inl e"
    and r2: "\<exists>e'. run ''d'' example_categories [example_item (JStr ''true'')] example_JSON_parse
      example_files_content (answers [example_batch ''running'' None] ?b) = Inl e'"
    by blast
  from e attempt have "e = SyntaxError" by simp
  with r1 r2 attempt example_line_decoded show ?thesis by blast
qed

end
